theory Spec2Isabelle
  imports Complex_Main
begin

section \<open>JavaScript values used by the two classes\<close>

text \<open>
  A JavaScript \<^verbatim>\<open>number\<close>: a real value or \<^verbatim>\<open>NaN\<close>. The only operation the
  modelled code performs on numbers is the strict comparison \<^verbatim>\<open>===\<close>, under which
  \<^verbatim>\<open>NaN\<close> differs from every number, itself included. The infinities behave like
  ordinary values under \<^verbatim>\<open>===\<close> and the two zeros are equal under it, so neither is
  told apart here.
\<close>

datatype number = Num real | NaN

fun strict_eq :: "number \<Rightarrow> number \<Rightarrow> bool" where
  "strict_eq (Num a) (Num b) = (a = b)"
| "strict_eq _ _ = False"

text \<open>
  A JavaScript \<^verbatim>\<open>Set\<close> keeps its entries in insertion order. \<^verbatim>\<open>delete\<close> blanks the
  entry in place (the list keeps its length), \<^verbatim>\<open>add\<close> appends unless the value is
  present, and an iterator is a position in that list which skips blanked entries;
  this is what makes deleting the current element during an iteration well defined.
\<close>

type_synonym 'a js_set = "'a option list"

definition set_has :: "'a \<Rightarrow> 'a js_set \<Rightarrow> bool" where
  "set_has x s = (Some x \<in> set s)"

definition set_add :: "'a \<Rightarrow> 'a js_set \<Rightarrow> 'a js_set" where
  "set_add x s = (if set_has x s then s else s @ [Some x])"

definition set_delete :: "'a \<Rightarrow> 'a js_set \<Rightarrow> 'a js_set" where
  "set_delete x s = map (\<lambda>entry. if entry = Some x then None else entry) s"

definition set_values :: "'a js_set \<Rightarrow> 'a list" where
  "set_values s = List.map_filter id s"

definition set_size :: "'a js_set \<Rightarrow> nat" where
  "set_size s = length (set_values s)"

text \<open>
  \<^verbatim>\<open>it.next()\<close> of an iterator standing at position \<open>i\<close>: \<open>None\<close> when the iterator is
  done, otherwise the next live value and the position after it.
\<close>

function it_next :: "'a js_set \<Rightarrow> nat \<Rightarrow> ('a \<times> nat) option" where
  "it_next s i =
     (if i < length s
      then (case s ! i of Some v \<Rightarrow> Some (v, Suc i) | None \<Rightarrow> it_next s (Suc i))
      else None)"
  by pat_completeness auto
termination
  by (relation "measure (\<lambda>(s, i). length s - i)") auto

declare it_next.simps [simp del]

section \<open>The WebAudio engine (webAudioEngine.ts)\<close>

subsection \<open>Data\<close>

text \<open>
  The platform's audio context: its identity and its \<^verbatim>\<open>state\<close> attribute, a string
  that the platform changes (\<^verbatim>\<open>"suspended"\<close>, \<^verbatim>\<open>"running"\<close>, \<^verbatim>\<open>"closed"\<close>,
  \<^verbatim>\<open>"interrupted"\<close>).
\<close>

record AudioContext =
  ctx_id :: nat
  ctx_state :: string

text \<open>The main output node; the engine only ever writes its \<^verbatim>\<open>volume\<close>.\<close>

record WebAudioMainOutput =
  output_volume :: number

record IWebAudioEngineOptions =
  opt_audioContext :: "AudioContext option"
  opt_resumeOnInteraction :: "bool option"
  opt_resumeOnPause :: "bool option"
  opt_resumeOnPauseRetryInterval :: "number option"

text \<open>
  Calls that leave the engine object, in the order they are made. Promises returned by
  the context's \<^verbatim>\<open>resume()\<close> and timers returned by \<^verbatim>\<open>setInterval\<close> are named by
  the number the platform hands out.
\<close>

datatype effect =
    NewAudioContext
  | AddClickListener
  | RemoveClickListener
  | AddStateChangeListener
  | RemoveStateChangeListener
  | CreateMainAudioOutput
  | SetMainOutputVolume number
  | CreateMainAudioBus string
  | ResolveIsReadyPromise
  | ContextResume nat
  | ContextSuspend
  | ContextClose
  | SuperDispose
  | ClearInterval "nat option"
  | SetInterval nat number
  | NotifyObservers string
  | NewAudio
  | CanPlayType string
  | Play nat

datatype promise_state = Pending | Fulfilled

text \<open>
  The fields of \<^verbatim>\<open>_WebAudioEngine\<close> (the leading underscore of a private field is
  dropped), followed by the part of the platform the class talks to: which listeners
  are registered, which interval timers are live, the next timer and promise numbers,
  and the trace of outgoing calls.
\<close>

record WebAudioEngine =
  audioContextStarted :: bool
  resumePromise :: "nat option"
  mainOutput :: "WebAudioMainOutput option"
  invalidFormats :: "string set"
  validFormats :: "string set"
  volume :: number
  audioContext :: AudioContext
  isReadyPromise :: promise_state
  resumeOnInteraction :: bool
  resumeOnPause :: bool
  resumeOnPauseRetryInterval :: number
  resumeOnPauseTimerId :: "nat option"
  soundInstancesToStartOnNextUserInteraction :: "nat js_set"
  clickListener :: bool
  stateChangeListener :: bool
  activeTimers :: "nat set"
  nextTimerId :: nat
  nextPromiseId :: nat
  trace :: "effect list"

definition emit :: "effect list \<Rightarrow> WebAudioEngine \<Rightarrow> WebAudioEngine" where
  "emit evs e = e\<lparr>trace := trace e @ evs\<rparr>"

subsection \<open>Platform calls\<close>

definition clearInterval :: "nat option \<Rightarrow> WebAudioEngine \<Rightarrow> WebAudioEngine" where
  "clearInterval tid e =
     emit [ClearInterval tid]
       (case tid of None \<Rightarrow> e | Some t \<Rightarrow> e\<lparr>activeTimers := activeTimers e - {t}\<rparr>)"

definition setInterval :: "number \<Rightarrow> WebAudioEngine \<Rightarrow> nat \<times> WebAudioEngine" where
  "setInterval delay e =
     (nextTimerId e,
      emit [SetInterval (nextTimerId e) delay]
        (e\<lparr>activeTimers := insert (nextTimerId e) (activeTimers e),
           nextTimerId := Suc (nextTimerId e)\<rparr>))"

definition context_resume :: "WebAudioEngine \<Rightarrow> nat \<times> WebAudioEngine" where
  "context_resume e =
     (nextPromiseId e,
      emit [ContextResume (nextPromiseId e)] (e\<lparr>nextPromiseId := Suc (nextPromiseId e)\<rparr>))"

subsection \<open>Accessors\<close>

definition state :: "WebAudioEngine \<Rightarrow> string" where
  "state e = ctx_state (audioContext e)"

definition get_volume :: "WebAudioEngine \<Rightarrow> number" where
  "get_volume e = volume e"

definition set_volume :: "number \<Rightarrow> WebAudioEngine \<Rightarrow> WebAudioEngine" where
  "set_volume v e =
     (if strict_eq (volume e) v then e
      else
        let e1 = e\<lparr>volume := v\<rparr> in
        (case mainOutput e1 of
           None \<Rightarrow> e1
         | Some out \<Rightarrow>
             emit [SetMainOutputVolume v] (e1\<lparr>mainOutput := Some (out\<lparr>output_volume := v\<rparr>)\<rparr>)))"

subsection \<open>Format probing\<close>

definition formatMimeTypeMap :: "string \<rightharpoonup> string" where
  "formatMimeTypeMap =
     map_of
       [(''aac'', ''audio/aac''),
        (''ac3'', ''audio/ac3''),
        (''flac'', ''audio/flac''),
        (''m4a'', ''audio/mp4''),
        (''mp3'', ''audio/mpeg; codecs=\"mp3\"''),
        (''mp4'', ''audio/mp4''),
        (''ogg'', ''audio/ogg; codecs=\"vorbis\"''),
        (''wav'', ''audio/wav''),
        (''webm'', ''audio/webm; codecs=\"vorbis\"'')]"

definition flagInvalidFormat :: "string \<Rightarrow> WebAudioEngine \<Rightarrow> WebAudioEngine" where
  "flagInvalidFormat format e = e\<lparr>invalidFormats := insert format (invalidFormats e)\<rparr>"

text \<open>
  \<open>canPlayType\<close> is the platform's capability query, the answer of
  \<^verbatim>\<open>new Audio().canPlayType(mimeType)\<close> at the time of the call; it is a parameter of
  every call, so two calls may be given different platforms.
\<close>

definition formatIsValid ::
  "(string \<Rightarrow> string) \<Rightarrow> string \<Rightarrow> WebAudioEngine \<Rightarrow> bool \<times> WebAudioEngine" where
  "formatIsValid canPlayType format e =
     (if format \<in> validFormats e then (True, e)
      else if format \<in> invalidFormats e then (False, e)
      else
        (case formatMimeTypeMap format of
           None \<Rightarrow> (False, e)
         | Some mimeType \<Rightarrow>
             let e1 = emit [NewAudio, CanPlayType mimeType] e in
             if canPlayType mimeType = ''''
             then (False, e1\<lparr>invalidFormats := insert format (invalidFormats e1)\<rparr>)
             else (True, e1\<lparr>validFormats := insert format (validFormats e1)\<rparr>)))"

subsection \<open>Pause and resume\<close>

text \<open>
  \<^verbatim>\<open>pause\<close> awaits the context's \<^verbatim>\<open>suspend()\<close>; the state itself changes later,
  when the platform says so.
\<close>

definition pause :: "WebAudioEngine \<Rightarrow> WebAudioEngine" where
  "pause e = emit [ContextSuspend] e"

text \<open>
  \<^verbatim>\<open>resume\<close> is an \<^verbatim>\<open>async\<close> method. The first component is the value its body
  returns: \<open>Some p\<close> for \<^verbatim>\<open>return this._resumePromise\<close>, so that the caller's promise
  follows \<open>p\<close>, and \<open>None\<close> when the body runs off its end, so that the caller's
  promise is fulfilled with \<^verbatim>\<open>undefined\<close> at once, whatever becomes of the context.
\<close>

definition resume :: "WebAudioEngine \<Rightarrow> nat option \<times> WebAudioEngine" where
  "resume e =
     (case resumePromise e of
        Some p \<Rightarrow> (Some p, e)
      | None \<Rightarrow>
          let (p, e1) = context_resume e in
          (None, e1\<lparr>resumePromise := Some p\<rparr>))"

subsection \<open>Callbacks\<close>

definition onAudioContextStateChange :: "WebAudioEngine \<Rightarrow> WebAudioEngine" where
  "onAudioContextStateChange e =
     (let e1 =
        (if state e = ''running''
         then (clearInterval (resumeOnPauseTimerId e) e)
                \<lparr>audioContextStarted := True, resumePromise := None\<rparr>
         else e);
      e2 =
        (if state e1 = ''suspended'' \<or> state e1 = ''interrupted''
         then
           (if audioContextStarted e1 \<and> resumeOnPause e1
            then
              let e1' = clearInterval (resumeOnPauseTimerId e1) e1;
                  (tid, e1'') = setInterval (resumeOnPauseRetryInterval e1') e1'
              in e1''\<lparr>resumeOnPauseTimerId := Some tid\<rparr>
            else e1)
         else e1)
      in emit [NotifyObservers (state e2)] e2)"

text \<open>
  The \<^verbatim>\<open>while (!next.done)\<close> loop of \<^verbatim>\<open>_onUserInteraction\<close>, with the iterator at
  position \<open>i\<close>. \<^verbatim>\<open>instance.play()\<close> belongs to the sound instance, outside this
  class; it is recorded as an outgoing call.
\<close>

lemma it_next_bounds:
  "it_next s i = Some (v, j) \<Longrightarrow> i < j \<and> j \<le> length s"
proof (induction s i rule: it_next.induct)
  case (1 s i)
  then show ?case
    by (subst (asm) (2) it_next.simps) (auto split: if_splits option.splits)
qed

function onUserInteraction_loop :: "nat \<Rightarrow> WebAudioEngine \<Rightarrow> WebAudioEngine" where
  "onUserInteraction_loop i e =
     (case it_next (soundInstancesToStartOnNextUserInteraction e) i of
        None \<Rightarrow> e
      | Some (instance, j) \<Rightarrow>
          onUserInteraction_loop j
            ((emit [Play instance] e)
               \<lparr>soundInstancesToStartOnNextUserInteraction :=
                  set_delete instance (soundInstancesToStartOnNextUserInteraction e)\<rparr>))"
  by pat_completeness auto
termination
  by (relation "measure (\<lambda>(i, e). length (soundInstancesToStartOnNextUserInteraction e) - i)")
     (auto simp: set_delete_def emit_def dest!: it_next_bounds)

declare onUserInteraction_loop.simps [simp del]

text \<open>
  \<^verbatim>\<open>_onUserInteraction\<close> up to its \<^verbatim>\<open>await\<close>, then what runs once the awaited
  \<^verbatim>\<open>audioContext.resume()\<close> is fulfilled, then the two together for a handler that
  nothing interleaves with. If the awaited promise is rejected the second part never
  runs.
\<close>

definition onUserInteraction_begin :: "WebAudioEngine \<Rightarrow> WebAudioEngine" where
  "onUserInteraction_begin e =
     (if resumeOnInteraction e then snd (context_resume e) else e)"

definition onUserInteraction_resumed :: "WebAudioEngine \<Rightarrow> WebAudioEngine" where
  "onUserInteraction_resumed e = onUserInteraction_loop 0 e"

definition onUserInteraction :: "WebAudioEngine \<Rightarrow> WebAudioEngine" where
  "onUserInteraction e =
     (if resumeOnInteraction e
      then onUserInteraction_resumed (onUserInteraction_begin e)
      else e)"

definition startSoundInstanceOnNextUserInteraction ::
  "nat \<Rightarrow> WebAudioEngine \<Rightarrow> WebAudioEngine" where
  "startSoundInstanceOnNextUserInteraction soundInstance e =
     e\<lparr>soundInstancesToStartOnNextUserInteraction :=
         set_add soundInstance (soundInstancesToStartOnNextUserInteraction e)\<rparr>"

subsection \<open>Construction, initialisation, disposal\<close>

text \<open>
  \<open>fresh\<close> is the context that \<^verbatim>\<open>new AudioContext()\<close> yields when the options carry
  none. The resolver of \<^verbatim>\<open>isReadyPromise\<close> is stored by the promise's executor, and
  the later declaration of the field \<^verbatim>\<open>_resolveIsReadyPromise\<close>, which has no
  initialiser, is taken to leave it in place.
\<close>

definition WebAudioEngine_new :: "AudioContext \<Rightarrow> IWebAudioEngineOptions \<Rightarrow> WebAudioEngine" where
  "WebAudioEngine_new fresh options =
     \<lparr>audioContextStarted = False,
      resumePromise = None,
      mainOutput = None,
      invalidFormats = {},
      validFormats = {},
      volume = Num 1,
      audioContext = (case opt_audioContext options of Some c \<Rightarrow> c | None \<Rightarrow> fresh),
      isReadyPromise = Pending,
      resumeOnInteraction = True,
      resumeOnPause = True,
      resumeOnPauseRetryInterval = Num 1000,
      resumeOnPauseTimerId = None,
      soundInstancesToStartOnNextUserInteraction = [],
      clickListener = False,
      stateChangeListener = False,
      activeTimers = {},
      nextTimerId = 0,
      nextPromiseId = 0,
      trace = (case opt_audioContext options of Some c \<Rightarrow> [] | None \<Rightarrow> [NewAudioContext])\<rparr>"

definition option_field :: "('o \<Rightarrow> 'a option) \<Rightarrow> 'o option \<Rightarrow> 'a \<Rightarrow> 'a" where
  \<comment> \<open>\<^verbatim>\<open>options?.field ?? default\<close>\<close>
  "option_field field options dflt =
     (case options of
        None \<Rightarrow> dflt
      | Some opts \<Rightarrow> (case field opts of None \<Rightarrow> dflt | Some v \<Rightarrow> v))"

text \<open>
  \<^verbatim>\<open>init\<close> and \<^verbatim>\<open>_initAudioContext\<close> are \<^verbatim>\<open>async\<close>; they are cut at their two
  \<^verbatim>\<open>await\<close>s. \<open>init_begin\<close> runs up to the request for the main output;
  \<open>initAudioContext_output\<close> runs once that request is fulfilled with \<open>out\<close>, up to
  the request for the default bus; \<open>resolveIsReadyPromise\<close> runs once the bus exists.
\<close>

definition initAudioContext_begin :: "WebAudioEngine \<Rightarrow> WebAudioEngine" where
  "initAudioContext_begin e =
     emit [AddStateChangeListener, CreateMainAudioOutput] (e\<lparr>stateChangeListener := True\<rparr>)"

definition initAudioContext_output :: "WebAudioMainOutput \<Rightarrow> WebAudioEngine \<Rightarrow> WebAudioEngine" where
  "initAudioContext_output out e =
     emit [SetMainOutputVolume (volume e), CreateMainAudioBus ''default'']
       (e\<lparr>mainOutput := Some (out\<lparr>output_volume := volume e\<rparr>)\<rparr>)"

definition init_begin :: "IWebAudioEngineOptions option \<Rightarrow> WebAudioEngine \<Rightarrow> WebAudioEngine" where
  "init_begin options e =
     initAudioContext_begin
       (emit [AddClickListener]
          (e\<lparr>resumeOnInteraction := option_field opt_resumeOnInteraction options True,
             resumeOnPause := option_field opt_resumeOnPause options True,
             resumeOnPauseRetryInterval :=
               option_field opt_resumeOnPauseRetryInterval options (Num 1000),
             clickListener := True\<rparr>))"

definition resolveIsReadyPromise :: "WebAudioEngine \<Rightarrow> WebAudioEngine" where
  "resolveIsReadyPromise e = emit [ResolveIsReadyPromise] (e\<lparr>isReadyPromise := Fulfilled\<rparr>)"

text \<open>
  The whole of \<^verbatim>\<open>init\<close> when nothing else runs at its \<^verbatim>\<open>await\<close>s. \<open>createdOutput\<close>
  is what \<^verbatim>\<open>_CreateMainAudioOutputAsync\<close> is fulfilled with (\<open>None\<close>: rejected) and
  \<open>busCreated\<close> tells whether \<^verbatim>\<open>CreateMainAudioBusAsync\<close> is fulfilled. The Boolean
  result tells whether the promise of \<^verbatim>\<open>init\<close> is fulfilled.
\<close>

definition init ::
  "IWebAudioEngineOptions option \<Rightarrow> WebAudioMainOutput option \<Rightarrow> bool \<Rightarrow>
   WebAudioEngine \<Rightarrow> bool \<times> WebAudioEngine" where
  "init options createdOutput busCreated e =
     (let e1 = init_begin options e in
      case createdOutput of
        None \<Rightarrow> (False, e1)
      | Some out \<Rightarrow>
          let e2 = initAudioContext_output out e1 in
          if busCreated then (True, resolveIsReadyPromise e2) else (False, e2))"

definition no_options :: IWebAudioEngineOptions where
  \<comment> \<open>the object \<^verbatim>\<open>{}\<close>\<close>
  "no_options =
     \<lparr>opt_audioContext = None, opt_resumeOnInteraction = None, opt_resumeOnPause = None,
      opt_resumeOnPauseRetryInterval = None\<rparr>"

definition CreateAudioEngineAsync ::
  "AudioContext \<Rightarrow> IWebAudioEngineOptions option \<Rightarrow> WebAudioMainOutput option \<Rightarrow> bool \<Rightarrow>
   bool \<times> WebAudioEngine" where
  "CreateAudioEngineAsync fresh options createdOutput busCreated =
     (let engine =
        WebAudioEngine_new fresh (case options of None \<Rightarrow> no_options | Some opts \<Rightarrow> opts)
      in init options createdOutput busCreated engine)"

definition dispose :: "WebAudioEngine \<Rightarrow> WebAudioEngine" where
  "dispose e =
     (let e1 = emit [SuperDispose] e;
          e2 = (if ctx_state (audioContext e1) \<noteq> ''closed'' then emit [ContextClose] e1 else e1)
      in emit [RemoveClickListener, RemoveStateChangeListener]
           (e2\<lparr>clickListener := False, stateChangeListener := False\<rparr>))"

subsection \<open>The engine as a state machine\<close>

text \<open>
  The private fields of the class change only through its own methods and callbacks.
  An event is a call of a public method, a continuation of an \<^verbatim>\<open>async\<close> body, or
  the platform firing a callback: a click, a change of the context's state (to the
  given string), or an interval timer. Continuations are allowed at any moment, which
  admits more runs than the platform produces.
\<close>

datatype engine_event =
    CallInit "IWebAudioEngineOptions option"
  | MainOutputCreated WebAudioMainOutput
  | MainBusCreated
  | CallDispose
  | CallFlagInvalidFormat string
  | CallFormatIsValid "string \<Rightarrow> string" string
  | CallPause
  | CallResume
  | CallSetVolume number
  | CallStartSoundInstanceOnNextUserInteraction nat
  | Click
  | ClickResumed
  | StateChange string
  | TimerFired nat

fun step :: "engine_event \<Rightarrow> WebAudioEngine \<Rightarrow> WebAudioEngine" where
  "step (CallInit options) e = init_begin options e"
| "step (MainOutputCreated out) e = initAudioContext_output out e"
| "step MainBusCreated e = resolveIsReadyPromise e"
| "step CallDispose e = dispose e"
| "step (CallFlagInvalidFormat format) e = flagInvalidFormat format e"
| "step (CallFormatIsValid canPlayType format) e = snd (formatIsValid canPlayType format e)"
| "step CallPause e = pause e"
| "step CallResume e = snd (resume e)"
| "step (CallSetVolume v) e = set_volume v e"
| "step (CallStartSoundInstanceOnNextUserInteraction i) e =
     startSoundInstanceOnNextUserInteraction i e"
| "step Click e = (if clickListener e then onUserInteraction_begin e else e)"
| "step ClickResumed e = onUserInteraction_resumed e"
| "step (StateChange s) e =
     (let e1 = e\<lparr>audioContext := (audioContext e)\<lparr>ctx_state := s\<rparr>\<rparr>
      in if stateChangeListener e1 then onAudioContextStateChange e1 else e1)"
| "step (TimerFired t) e = (if t \<in> activeTimers e then snd (resume e) else e)"

fun run :: "engine_event list \<Rightarrow> WebAudioEngine \<Rightarrow> WebAudioEngine" where
  "run [] e = e"
| "run (ev # evs) e = run evs (step ev e)"

section \<open>The IBL shadows spatial blur pass (iblShadowsSpatialBlurPass.ts)\<close>

subsection \<open>Data\<close>

text \<open>
  The names of \<^verbatim>\<open>Constants\<close> that the class uses. Their numeric values are
  declared with the rendering engine; the class only passes them on.
\<close>

datatype Constants =
    TEXTUREFORMAT_R
  | TEXTUREFORMAT_RG
  | TEXTURETYPE_UNSIGNED_BYTE
  | TEXTURE_NEAREST_SAMPLINGMODE
  | PREPASS_WORLD_NORMAL_TEXTURE_TYPE
  | PREPASS_DEPTH_TEXTURE_TYPE

datatype Vector4 = Vector4 number number number number

record AbstractEngine =
  getRenderWidth :: nat
  getRenderHeight :: nat

text \<open>
  The prepass renderer: \<^verbatim>\<open>getIndex\<close> maps a texture type to its index in the render
  target, negative when the type is not rendered; \<open>textures\<close> are the textures of
  \<^verbatim>\<open>getRenderTarget()\<close>, named by number.
\<close>

record PrePassRenderer =
  getIndex :: "Constants \<Rightarrow> int"
  textures :: "nat list"

record Scene =
  getEngine :: AbstractEngine
  prePassRenderer :: "PrePassRenderer option"

record PostProcessOptions =
  width :: nat
  height :: nat
  textureFormat :: Constants
  textureType :: Constants
  samplingMode :: Constants
  uniforms :: "string list"
  samplers :: "string list"
  options_engine :: AbstractEngine
  reusable :: bool

text \<open>The two \<^verbatim>\<open>onApply\<close> callbacks the class installs.\<close>

datatype apply_callback = UpdatePostProcess | UpdateDebugPass

text \<open>
  A post-process object. \<open>pp_id\<close> is the identity of the object; \<open>pp_isReady\<close> is
  what its \<^verbatim>\<open>isReady()\<close> answers, which the rendering engine decides.
\<close>

record PostProcess =
  pp_id :: nat
  pp_name :: string
  pp_fragmentUrl :: string
  pp_options :: PostProcessOptions
  autoClear :: bool
  onApply :: "apply_callback option"
  pp_isReady :: bool
  pp_disposed :: bool

definition new_PostProcess :: "nat \<Rightarrow> string \<Rightarrow> string \<Rightarrow> PostProcessOptions \<Rightarrow> PostProcess" where
  "new_PostProcess ident name fragmentUrl options =
     \<lparr>pp_id = ident, pp_name = name, pp_fragmentUrl = fragmentUrl, pp_options = options,
      autoClear = True, onApply = None, pp_isReady = False, pp_disposed = False\<rparr>"

text \<open>Calls made on an \<^verbatim>\<open>Effect\<close>, in order; a texture argument may be \<^verbatim>\<open>undefined\<close>.\<close>

datatype effect_call =
    SetVector4 string Vector4
  | SetTexture string "nat option"
  | SetTextureFromPostProcessOutput string nat

text \<open>
  The fields of \<^verbatim>\<open>_IblShadowsSpatialBlurPass\<close>, and \<open>postProcessesCreated\<close>, the
  number of \<^verbatim>\<open>new PostProcess\<close> calls so far, which also names the next object.
\<close>

record IblShadowsSpatialBlurPass =
  scene :: Scene
  engine :: AbstractEngine
  outputPP :: PostProcess
  worldScale :: number
  debugPassName :: string
  debugEnabled :: bool
  debugPassPP :: "PostProcess option"
  debugSizeParams :: Vector4
  postProcessesCreated :: nat

subsection \<open>Methods\<close>

definition getPassPP :: "IblShadowsSpatialBlurPass \<Rightarrow> PostProcess" where
  "getPassPP p = outputPP p"

definition createDebugPass :: "IblShadowsSpatialBlurPass \<Rightarrow> IblShadowsSpatialBlurPass" where
  "createDebugPass p =
     (if debugPassPP p = None
      then
        let debugOptions =
              \<lparr>width = getRenderWidth (engine p),
               height = getRenderHeight (engine p),
               textureFormat = TEXTUREFORMAT_R,
               textureType = TEXTURETYPE_UNSIGNED_BYTE,
               samplingMode = TEXTURE_NEAREST_SAMPLINGMODE,
               uniforms = [''sizeParams''],
               samplers = [''debugSampler''],
               options_engine = engine p,
               reusable = False\<rparr>;
            pp = new_PostProcess (postProcessesCreated p) (debugPassName p) ''iblShadowDebug''
                   debugOptions
        in p\<lparr>debugPassPP := Some (pp\<lparr>autoClear := False, onApply := Some UpdateDebugPass\<rparr>),
             postProcessesCreated := Suc (postProcessesCreated p)\<rparr>
      else p)"

definition getDebugPassPP ::
  "IblShadowsSpatialBlurPass \<Rightarrow> PostProcess option \<times> IblShadowsSpatialBlurPass" where
  "getDebugPassPP p =
     (let p1 = (if debugPassPP p = None then createDebugPass p else p)
      in (debugPassPP p1, p1))"

definition setWorldScale :: "number \<Rightarrow> IblShadowsSpatialBlurPass \<Rightarrow> IblShadowsSpatialBlurPass" where
  "setWorldScale scale p = p\<lparr>worldScale := scale\<rparr>"

definition setDebugDisplayParams ::
  "number \<Rightarrow> number \<Rightarrow> number \<Rightarrow> number \<Rightarrow> IblShadowsSpatialBlurPass \<Rightarrow>
   IblShadowsSpatialBlurPass" where
  "setDebugDisplayParams x y widthScale heightScale p =
     p\<lparr>debugSizeParams := Vector4 x y widthScale heightScale\<rparr>"

definition createTextures :: "IblShadowsSpatialBlurPass \<Rightarrow> IblShadowsSpatialBlurPass" where
  "createTextures p =
     (let ppOptions =
            \<lparr>width = getRenderWidth (engine p),
             height = getRenderHeight (engine p),
             textureFormat = TEXTUREFORMAT_RG,
             textureType = TEXTURETYPE_UNSIGNED_BYTE,
             samplingMode = TEXTURE_NEAREST_SAMPLINGMODE,
             uniforms = [''blurParameters''],
             samplers = [''shadowSampler'', ''worldNormalSampler'', ''linearDepthSampler''],
             options_engine = engine p,
             reusable = False\<rparr>;
          pp = new_PostProcess (postProcessesCreated p) ''spacialBlurPP'' ''iblShadowSpatialBlur''
                 ppOptions
      in p\<lparr>outputPP := pp\<lparr>autoClear := False, onApply := Some UpdatePostProcess\<rparr>,
           postProcessesCreated := Suc (postProcessesCreated p)\<rparr>)"

text \<open>
  The constructor. \<open>created\<close> is the number of post-processes that exist already. Before
  \<^verbatim>\<open>_createTextures\<close> runs the output field holds nothing; the placeholder written
  here is overwritten by it.
\<close>

definition IblShadowsSpatialBlurPass_new :: "nat \<Rightarrow> Scene \<Rightarrow> IblShadowsSpatialBlurPass" where
  "IblShadowsSpatialBlurPass_new created scn =
     createTextures
       \<lparr>scene = scn,
        engine = getEngine scn,
        outputPP = new_PostProcess created [] []
          \<lparr>width = 0, height = 0, textureFormat = TEXTUREFORMAT_RG,
           textureType = TEXTURETYPE_UNSIGNED_BYTE, samplingMode = TEXTURE_NEAREST_SAMPLINGMODE,
           uniforms = [], samplers = [], options_engine = getEngine scn, reusable = False\<rparr>,
        worldScale = Num 1,
        debugPassName = ''Spatial Blur Debug Pass'',
        debugEnabled = False,
        debugPassPP = None,
        debugSizeParams = Vector4 (Num 0) (Num 0) (Num 0) (Num 0),
        postProcessesCreated = created\<rparr>"

definition array_get :: "'a list \<Rightarrow> int \<Rightarrow> 'a option" where
  \<comment> \<open>\<^verbatim>\<open>xs[i]\<close>: \<^verbatim>\<open>undefined\<close> outside the array\<close>
  "array_get xs i = (if 0 \<le> i \<and> nat i < length xs then Some (xs ! nat i) else None)"

definition updatePostProcess :: "IblShadowsSpatialBlurPass \<Rightarrow> effect_call list \<Rightarrow> effect_call list" where
  "updatePostProcess p effect =
     (let iterationCount = Num 1;
          effect1 = effect @
            [SetVector4 ''blurParameters'' (Vector4 iterationCount (worldScale p) (Num 0) (Num 0))]
      in case prePassRenderer (scene p) of
           None \<Rightarrow> effect1
         | Some renderer \<Rightarrow>
             let wnormalIndex = getIndex renderer PREPASS_WORLD_NORMAL_TEXTURE_TYPE;
                 depthIndex = getIndex renderer PREPASS_DEPTH_TEXTURE_TYPE;
                 effect2 =
                   (if wnormalIndex \<ge> 0
                    then effect1 @
                      [SetTexture ''worldNormalSampler'' (array_get (textures renderer) wnormalIndex)]
                    else effect1)
             in if depthIndex \<ge> 0
                then effect2 @
                  [SetTexture ''linearDepthSampler'' (array_get (textures renderer) depthIndex)]
                else effect2)"

definition updateDebugPass :: "IblShadowsSpatialBlurPass \<Rightarrow> effect_call list \<Rightarrow> effect_call list" where
  \<comment> \<open>the \<^verbatim>\<open>onApply\<close> callback of the debug pass\<close>
  "updateDebugPass p effect =
     effect @ [SetTextureFromPostProcessOutput ''debugSampler'' (pp_id (outputPP p)),
               SetVector4 ''sizeParams'' (debugSizeParams p)]"

text \<open>What the post-process framework runs on \<^verbatim>\<open>onApply\<close> of a post-process.\<close>

definition apply_callback :: "IblShadowsSpatialBlurPass \<Rightarrow> PostProcess \<Rightarrow> effect_call list \<Rightarrow> effect_call list" where
  "apply_callback p pp effect =
     (case onApply pp of
        None \<Rightarrow> effect
      | Some UpdatePostProcess \<Rightarrow> updatePostProcess p effect
      | Some UpdateDebugPass \<Rightarrow> updateDebugPass p effect)"

definition isReady :: "IblShadowsSpatialBlurPass \<Rightarrow> bool" where
  "isReady p =
     (pp_isReady (outputPP p) \<and>
      \<not> (case debugPassPP p of None \<Rightarrow> False | Some debugPP \<Rightarrow> \<not> pp_isReady debugPP))"

definition pass_dispose :: "IblShadowsSpatialBlurPass \<Rightarrow> IblShadowsSpatialBlurPass" where
  "pass_dispose p =
     (let p1 = p\<lparr>outputPP := (outputPP p)\<lparr>pp_disposed := True\<rparr>\<rparr>
      in case debugPassPP p1 of
           None \<Rightarrow> p1
         | Some debugPP \<Rightarrow> p1\<lparr>debugPassPP := Some (debugPP\<lparr>pp_disposed := True\<rparr>)\<rparr>)"

subsection \<open>The pass as a state machine\<close>

text \<open>
  \<^verbatim>\<open>_debugPassPP\<close> is private and \<^verbatim>\<open>_createDebugPass\<close> is private, so the field
  changes only through the public members below. The last three events are the
  rendering engine at work: a post-process (named by its identity) becoming ready or
  not, the scene's prepass renderer being replaced, and a post-process being applied.
\<close>

datatype pass_event =
    CallGetPassPP
  | CallGetDebugPassPP
  | CallSetWorldScale number
  | SetDebugEnabled bool
  | CallSetDebugDisplayParams number number number number
  | CallIsReady
  | CallPassDispose
  | ReadyChanged nat bool
  | PrePassRendererChanged "PrePassRenderer option"
  | Applied

definition set_ready :: "nat \<Rightarrow> bool \<Rightarrow> PostProcess \<Rightarrow> PostProcess" where
  "set_ready ident b pp = (if pp_id pp = ident then pp\<lparr>pp_isReady := b\<rparr> else pp)"

fun pass_step :: "pass_event \<Rightarrow> IblShadowsSpatialBlurPass \<Rightarrow> IblShadowsSpatialBlurPass" where
  "pass_step CallGetPassPP p = p"
| "pass_step CallGetDebugPassPP p = snd (getDebugPassPP p)"
| "pass_step (CallSetWorldScale scale) p = setWorldScale scale p"
| "pass_step (SetDebugEnabled b) p = p\<lparr>debugEnabled := b\<rparr>"
| "pass_step (CallSetDebugDisplayParams x y w h) p = setDebugDisplayParams x y w h p"
| "pass_step CallIsReady p = p"
| "pass_step CallPassDispose p = pass_dispose p"
| "pass_step (ReadyChanged ident b) p =
     p\<lparr>outputPP := set_ready ident b (outputPP p),
       debugPassPP := map_option (set_ready ident b) (debugPassPP p)\<rparr>"
| "pass_step (PrePassRendererChanged r) p = p\<lparr>scene := (scene p)\<lparr>prePassRenderer := r\<rparr>\<rparr>"
| "pass_step Applied p = p"

fun pass_run :: "pass_event list \<Rightarrow> IblShadowsSpatialBlurPass \<Rightarrow> IblShadowsSpatialBlurPass" where
  "pass_run [] p = p"
| "pass_run (ev # evs) p = pass_run evs (pass_step ev p)"

section \<open>Properties of the WebAudio engine\<close>

named_theorems engine_defs

lemmas [engine_defs] = emit_def clearInterval_def setInterval_def context_resume_def state_def
  get_volume_def set_volume_def flagInvalidFormat_def formatIsValid_def pause_def resume_def
  onAudioContextStateChange_def onUserInteraction_begin_def onUserInteraction_resumed_def
  onUserInteraction_def startSoundInstanceOnNextUserInteraction_def
  initAudioContext_begin_def initAudioContext_output_def init_begin_def resolveIsReadyPromise_def
  init_def dispose_def

subsection \<open>The iterator and the loop\<close>

lemma it_next_Some:
  "it_next s i = Some (v, j) \<Longrightarrow>
     i < j \<and> j \<le> length s \<and> s ! (j - 1) = Some v \<and> (\<forall>k. i \<le> k \<and> k < j - 1 \<longrightarrow> s ! k = None)"
proof (induction s i rule: it_next.induct)
  case (1 s i)
  show ?case
  proof (cases "s ! i")
    case None
    with "1.prems" have lt: "i < length s" and rec: "it_next s (Suc i) = Some (v, j)"
      by (subst (asm) it_next.simps; simp split: if_splits)+
    have "s ! k = None" if "i \<le> k" "k < j - 1" for k
    proof (cases "k = i")
      case True
      with None show ?thesis by simp
    next
      case False
      with that have "Suc i \<le> k \<and> k < j - 1" by simp
      with "1.IH"[OF lt None rec] show ?thesis by blast
    qed
    with "1.IH"[OF lt None rec] show ?thesis by simp
  next
    case (Some w)
    with "1.prems" show ?thesis
      by (subst (asm) it_next.simps) (auto split: if_splits)
  qed
qed

lemma it_next_None:
  "it_next s i = None \<Longrightarrow> i \<le> k \<Longrightarrow> k < length s \<Longrightarrow> s ! k = None"
proof (induction s i rule: it_next.induct)
  case (1 s i)
  from "1.prems" have lt: "i < length s" by simp
  show ?case
  proof (cases "s ! i")
    case None
    with "1.prems" lt have rec: "it_next s (Suc i) = None"
      by (subst (asm) it_next.simps) simp
    show ?thesis
    proof (cases "k = i")
      case True
      with None show ?thesis by simp
    next
      case False
      with "1.prems" have "Suc i \<le> k" by simp
      from "1.IH"[OF lt None rec this "1.prems"(3)] show ?thesis .
    qed
  next
    case (Some w)
    with "1.prems" lt show ?thesis
      by (subst (asm) it_next.simps) simp
  qed
qed

lemma loop_frame:
  "(onUserInteraction_loop i e)\<lparr>soundInstancesToStartOnNextUserInteraction := S, trace := T\<rparr> =
   e\<lparr>soundInstancesToStartOnNextUserInteraction := S, trace := T\<rparr>"
proof (induction i e arbitrary: S T rule: onUserInteraction_loop.induct)
  case (1 i e)
  show ?case
  proof (cases "it_next (soundInstancesToStartOnNextUserInteraction e) i")
    case None
    then show ?thesis by (subst onUserInteraction_loop.simps) simp
  next
    case (Some a)
    obtain v j where a: "a = (v, j)" by (cases a)
    show ?thesis
      using "1.IH"[OF Some[unfolded a] refl] Some a
      by (subst onUserInteraction_loop.simps) (simp add: emit_def)
  qed
qed

lemma loop_validFormats [simp]: "validFormats (onUserInteraction_loop i e) = validFormats e"
  using arg_cong[where f=validFormats, OF loop_frame[where i=i and e=e and S="[]" and T="[]"]]
  by simp

lemma loop_invalidFormats [simp]: "invalidFormats (onUserInteraction_loop i e) = invalidFormats e"
  using arg_cong[where f=invalidFormats, OF loop_frame[where i=i and e=e and S="[]" and T="[]"]]
  by simp

lemma loop_audioContextStarted [simp]:
  "audioContextStarted (onUserInteraction_loop i e) = audioContextStarted e"
  using arg_cong[where f=audioContextStarted, OF loop_frame[where i=i and e=e and S="[]" and T="[]"]]
  by simp

lemma set_values_set: "set (set_values s) = {v. Some v \<in> set s}"
  by (induction s) (auto simp: set_values_def List.map_filter_simps split: option.splits)

lemma set_values_blank: "set_values (replicate n None) = []"
  by (induction n) (simp_all add: set_values_def List.map_filter_simps)

lemma loop_drains:
  assumes "\<forall>k<i. soundInstancesToStartOnNextUserInteraction e ! k = None"
  shows "\<exists>xs. trace (onUserInteraction_loop i e) = trace e @ map Play xs \<and> distinct xs \<and>
            set xs = {v. Some v \<in> set (soundInstancesToStartOnNextUserInteraction e)} \<and>
            soundInstancesToStartOnNextUserInteraction (onUserInteraction_loop i e) =
              replicate (length (soundInstancesToStartOnNextUserInteraction e)) None"
  using assms
proof (induction i e rule: onUserInteraction_loop.induct)
  case (1 i e)
  let ?s = "soundInstancesToStartOnNextUserInteraction e"
  show ?case
  proof (cases "it_next ?s i")
    case None
    have allNone: "?s ! k = None" if "k < length ?s" for k
      using it_next_None[OF None, of k] "1.prems" that by (cases "k < i") auto
    then have "?s = replicate (length ?s) None"
      by (simp add: list_eq_iff_nth_eq)
    moreover from allNone have "{v. Some v \<in> set ?s} = {}"
      by (auto simp: in_set_conv_nth)
    moreover have "onUserInteraction_loop i e = e"
      using None by (subst onUserInteraction_loop.simps) simp
    ultimately show ?thesis
      by (intro exI[of _ "[]"]) simp
  next
    case (Some a)
    obtain v j where a: "a = (v, j)" by (cases a)
    let ?e' = "(emit [Play v] e)\<lparr>soundInstancesToStartOnNextUserInteraction := set_delete v ?s\<rparr>"
    let ?s' = "set_delete v ?s"
    from it_next_Some[OF Some[unfolded a]]
    have ij: "i < j" "j \<le> length ?s" and at: "?s ! (j - 1) = Some v"
      and gap: "\<forall>k. i \<le> k \<and> k < j - 1 \<longrightarrow> ?s ! k = None"
      by auto
    have blank: "\<forall>k<j. soundInstancesToStartOnNextUserInteraction ?e' ! k = None"
    proof (intro allI impI)
      fix k assume "k < j"
      with ij have kl: "k < length ?s" by simp
      have "?s ! k = None \<or> ?s ! k = Some v"
        using "1.prems" gap at \<open>k < j\<close> by (cases "k < i"; cases "k = j - 1") auto
      with kl show "soundInstancesToStartOnNextUserInteraction ?e' ! k = None"
        by (auto simp: set_delete_def)
    qed
    from "1.IH"[OF Some[unfolded a] refl blank]
    obtain xs where xs: "trace (onUserInteraction_loop j ?e') = trace ?e' @ map Play xs"
      "distinct xs" "set xs = {u. Some u \<in> set ?s'}"
      "soundInstancesToStartOnNextUserInteraction (onUserInteraction_loop j ?e') =
         replicate (length ?s') None"
      by auto
    have s': "{u. Some u \<in> set ?s'} = {u. Some u \<in> set ?s} - {v}"
      by (auto simp: set_delete_def)
    have "j - 1 < length ?s"
      using ij by simp
    from nth_mem[OF this] at have vin: "Some v \<in> set ?s"
      by simp
    have unf: "onUserInteraction_loop i e = onUserInteraction_loop j ?e'"
      using Some a by (subst onUserInteraction_loop.simps) simp
    show ?thesis
      unfolding unf using xs s' vin
      by (intro exI[of _ "v # xs"]) (auto simp: emit_def set_delete_def)
  qed
qed

subsection \<open>Volume\<close>

text \<open>
  Claim C9. Setting the volume to a value that is \<^verbatim>\<open>===\<close> to the stored one returns
  the engine unchanged: nothing is written, neither to the stored volume nor to the main
  output. Setting it to any other value stores the value; the main output is written
  exactly when it exists (without one, the main output stays absent and no outgoing
  call is made); and every field other than the stored volume, the main output and the
  trace of outgoing calls keeps its value. The getter returns the stored volume.
\<close>

theorem volume_setter_frame:
  "(strict_eq (volume e) v \<longrightarrow> set_volume v e = e) \<and>
   (\<not> strict_eq (volume e) v \<longrightarrow>
      volume (set_volume v e) = v \<and>
      (mainOutput e = None \<longrightarrow>
         mainOutput (set_volume v e) = None \<and> trace (set_volume v e) = trace e) \<and>
      (\<forall>out. mainOutput e = Some out \<longrightarrow>
         mainOutput (set_volume v e) = Some (out\<lparr>output_volume := v\<rparr>) \<and>
         trace (set_volume v e) = trace e @ [SetMainOutputVolume v])) \<and>
   (\<forall>x y z. (set_volume v e)\<lparr>volume := x, mainOutput := y, trace := z\<rparr> =
            e\<lparr>volume := x, mainOutput := y, trace := z\<rparr>) \<and>
   get_volume e = volume e \<and>
   get_volume (set_volume v e) = (if strict_eq (volume e) v then volume e else v)"
  by (auto simp: set_volume_def get_volume_def emit_def Let_def split: option.splits)

theorem volume_setter_frame_witness:
  "strict_eq (volume (WebAudioEngine_new \<lparr>ctx_id = 0, ctx_state = ''suspended''\<rparr> no_options)) (Num 1) \<and>
   set_volume (Num 1) (WebAudioEngine_new \<lparr>ctx_id = 0, ctx_state = ''suspended''\<rparr> no_options) =
     WebAudioEngine_new \<lparr>ctx_id = 0, ctx_state = ''suspended''\<rparr> no_options \<and>
   \<not> strict_eq (volume (snd (init None (Some \<lparr>output_volume = Num 0\<rparr>) True
        (WebAudioEngine_new \<lparr>ctx_id = 0, ctx_state = ''suspended''\<rparr> no_options)))) (Num (1/2)) \<and>
   mainOutput (set_volume (Num (1/2)) (snd (init None (Some \<lparr>output_volume = Num 0\<rparr>) True
        (WebAudioEngine_new \<lparr>ctx_id = 0, ctx_state = ''suspended''\<rparr> no_options)))) =
     Some \<lparr>output_volume = Num (1/2)\<rparr> \<and>
   \<not> strict_eq (volume (WebAudioEngine_new \<lparr>ctx_id = 0, ctx_state = ''suspended''\<rparr> no_options)) NaN \<and>
   mainOutput (WebAudioEngine_new \<lparr>ctx_id = 0, ctx_state = ''suspended''\<rparr> no_options) = None \<and>
   trace (set_volume NaN (WebAudioEngine_new \<lparr>ctx_id = 0, ctx_state = ''suspended''\<rparr> no_options)) =
     [NewAudioContext]"
  using volume_setter_frame[of "WebAudioEngine_new \<lparr>ctx_id = 0, ctx_state = ''suspended''\<rparr> no_options" "Num 1"]
    volume_setter_frame[of "snd (init None (Some \<lparr>output_volume = Num 0\<rparr>) True
        (WebAudioEngine_new \<lparr>ctx_id = 0, ctx_state = ''suspended''\<rparr> no_options))" "Num (1/2)"]
    volume_setter_frame[of "WebAudioEngine_new \<lparr>ctx_id = 0, ctx_state = ''suspended''\<rparr> no_options" NaN]
  by (simp add: WebAudioEngine_new_def no_options_def engine_defs option_field_def)

subsection \<open>Format probing\<close>

lemma step_validFormats_mono: "f \<in> validFormats e \<Longrightarrow> f \<in> validFormats (step ev e)"
  by (cases ev) (auto simp: engine_defs Let_def split: option.splits prod.splits if_splits)

lemma run_validFormats_mono: "f \<in> validFormats e \<Longrightarrow> f \<in> validFormats (run evs e)"
  by (induction evs arbitrary: e) (simp_all add: step_validFormats_mono)

lemma step_rejected:
  "f \<notin> validFormats e \<Longrightarrow> f \<in> invalidFormats e \<or> formatMimeTypeMap f = None \<Longrightarrow>
   f \<notin> validFormats (step ev e) \<and> (f \<in> invalidFormats (step ev e) \<or> formatMimeTypeMap f = None)"
  by (cases ev) (auto simp: engine_defs Let_def split: option.splits prod.splits if_splits)

lemma run_rejected:
  "f \<notin> validFormats e \<Longrightarrow> f \<in> invalidFormats e \<or> formatMimeTypeMap f = None \<Longrightarrow>
   f \<notin> validFormats (run evs e) \<and> (f \<in> invalidFormats (run evs e) \<or> formatMimeTypeMap f = None)"
proof (induction evs arbitrary: e)
  case Nil
  then show ?case by simp
next
  case (Cons ev evs)
  from step_rejected[OF Cons.prems, of ev] show ?case
    by (simp add: Cons.IH)
qed

lemma formatIsValid_accepted: "f \<in> validFormats e \<Longrightarrow> formatIsValid c f e = (True, e)"
  by (simp add: formatIsValid_def)

lemma formatIsValid_rejected:
  "f \<notin> validFormats e \<Longrightarrow> f \<in> invalidFormats e \<or> formatMimeTypeMap f = None \<Longrightarrow>
   formatIsValid c f e = (False, e)"
  by (auto simp: formatIsValid_def)

lemma formatIsValid_records:
  "formatIsValid c f e = (r, e1) \<Longrightarrow>
   (if r then f \<in> validFormats e1
    else f \<notin> validFormats e1 \<and> (f \<in> invalidFormats e1 \<or> formatMimeTypeMap f = None))"
  by (auto simp: formatIsValid_def emit_def Let_def split: if_splits option.splits)

lemma step_valid_in_table:
  "validFormats e \<subseteq> dom formatMimeTypeMap \<Longrightarrow> validFormats (step ev e) \<subseteq> dom formatMimeTypeMap"
  by (cases ev) (auto simp: engine_defs Let_def split: option.splits prod.splits if_splits)

lemma run_valid_in_table:
  "validFormats e \<subseteq> dom formatMimeTypeMap \<Longrightarrow> validFormats (run evs e) \<subseteq> dom formatMimeTypeMap"
  by (induction evs arbitrary: e) (simp_all add: step_valid_in_table)

text \<open>
  Claim C2. Let a call \<open>formatIsValid\<close> for a format answer \<open>r\<close> and leave the engine
  \<open>e1\<close>. Then after any further events, under any platform, a call for the same format
  answers \<open>r\<close> again and returns the engine as it found it, so it makes no outgoing call
  and in particular no second probe. If the first call did probe (its trace grew), the
  format was recorded in the valid set when the answer is true and in the invalid set
  when it is false. On every engine reached from a new one, a format that the table
  \<open>formatMimeTypeMap\<close> does not hold is answered false, without a probe.
\<close>

theorem formatIsValid_memoized:
  "(formatIsValid c1 format e = (r, e1) \<longrightarrow>
      formatIsValid c2 format (run evs e1) = (r, run evs e1) \<and>
      (trace e1 \<noteq> trace e \<longrightarrow>
         (if r then format \<in> validFormats e1 else format \<in> invalidFormats e1))) \<and>
   (formatMimeTypeMap format = None \<longrightarrow>
      formatIsValid c1 format (run evs (WebAudioEngine_new fresh options)) =
        (False, run evs (WebAudioEngine_new fresh options)))"
proof (intro conjI impI)
  assume call: "formatIsValid c1 format e = (r, e1)"
  show "formatIsValid c2 format (run evs e1) = (r, run evs e1)"
  proof (cases r)
    case True
    with formatIsValid_records[OF call] have "format \<in> validFormats (run evs e1)"
      by (simp add: run_validFormats_mono)
    with True show ?thesis by (simp add: formatIsValid_accepted)
  next
    case False
    with formatIsValid_records[OF call]
    have "format \<notin> validFormats e1" "format \<in> invalidFormats e1 \<or> formatMimeTypeMap format = None"
      by simp_all
    from run_rejected[OF this, of evs] False show ?thesis
      by (simp add: formatIsValid_rejected)
  qed
  assume "trace e1 \<noteq> trace e"
  with call show "if r then format \<in> validFormats e1 else format \<in> invalidFormats e1"
    by (auto simp: formatIsValid_def emit_def Let_def split: if_splits option.splits)
next
  assume absent: "formatMimeTypeMap format = None"
  have "validFormats (WebAudioEngine_new fresh options) \<subseteq> dom formatMimeTypeMap"
    by (simp add: WebAudioEngine_new_def)
  from run_valid_in_table[OF this, of evs] absent
  have "format \<notin> validFormats (run evs (WebAudioEngine_new fresh options))"
    by auto
  with absent show "formatIsValid c1 format (run evs (WebAudioEngine_new fresh options)) =
        (False, run evs (WebAudioEngine_new fresh options))"
    by (simp add: formatIsValid_rejected)
qed

theorem formatIsValid_memoized_witness:
  "formatIsValid (\<lambda>m. ''probably'') ''mp3''
      (WebAudioEngine_new \<lparr>ctx_id = 0, ctx_state = ''suspended''\<rparr> no_options) =
     (True, snd (formatIsValid (\<lambda>m. ''probably'') ''mp3''
        (WebAudioEngine_new \<lparr>ctx_id = 0, ctx_state = ''suspended''\<rparr> no_options))) \<and>
   trace (snd (formatIsValid (\<lambda>m. ''probably'') ''mp3''
        (WebAudioEngine_new \<lparr>ctx_id = 0, ctx_state = ''suspended''\<rparr> no_options))) =
     [NewAudioContext, NewAudio, CanPlayType ''audio/mpeg; codecs=\"mp3\"''] \<and>
   formatIsValid (\<lambda>m. '''') ''mp3''
      (run [CallFlagInvalidFormat ''mp3'', CallPause]
        (snd (formatIsValid (\<lambda>m. ''probably'') ''mp3''
          (WebAudioEngine_new \<lparr>ctx_id = 0, ctx_state = ''suspended''\<rparr> no_options)))) =
     (True, run [CallFlagInvalidFormat ''mp3'', CallPause]
        (snd (formatIsValid (\<lambda>m. ''probably'') ''mp3''
          (WebAudioEngine_new \<lparr>ctx_id = 0, ctx_state = ''suspended''\<rparr> no_options)))) \<and>
   formatMimeTypeMap ''mid'' = None \<and>
   fst (formatIsValid (\<lambda>m. ''probably'') ''mid''
      (run [CallFormatIsValid (\<lambda>m. ''probably'') ''mp3'']
        (WebAudioEngine_new \<lparr>ctx_id = 0, ctx_state = ''suspended''\<rparr> no_options))) = False"
  using formatIsValid_memoized[where ?c1.0 = "\<lambda>m. ''probably''" and format = "''mp3''"
      and e = "WebAudioEngine_new \<lparr>ctx_id = 0, ctx_state = ''suspended''\<rparr> no_options"
      and r = True
      and ?e1.0 = "snd (formatIsValid (\<lambda>m. ''probably'') ''mp3''
        (WebAudioEngine_new \<lparr>ctx_id = 0, ctx_state = ''suspended''\<rparr> no_options))"
      and ?c2.0 = "\<lambda>m. ''''" and evs = "[CallFlagInvalidFormat ''mp3'', CallPause]"]
    formatIsValid_memoized[where ?c1.0 = "\<lambda>m. ''probably''" and format = "''mid''"
      and evs = "[CallFormatIsValid (\<lambda>m. ''probably'') ''mp3'']"
      and fresh = "\<lparr>ctx_id = 0, ctx_state = ''suspended''\<rparr>" and options = no_options]
  by (simp add: WebAudioEngine_new_def no_options_def formatIsValid_def formatMimeTypeMap_def
      emit_def Let_def)

text \<open>
  Claim C10. Once \<open>formatIsValid\<close> has answered true for a format, flagging the format
  as invalid leaves it in the valid set (it is then in both sets), and after any further
  events \<open>formatIsValid\<close> still answers true for it and changes nothing: the valid set
  is looked up before the invalid one.
\<close>

theorem flagInvalidFormat_keeps_valid:
  "formatIsValid c1 format e = (True, e1) \<Longrightarrow>
   format \<in> validFormats (flagInvalidFormat format e1) \<and>
   format \<in> invalidFormats (flagInvalidFormat format e1) \<and>
   formatIsValid c2 format (run evs (flagInvalidFormat format e1)) =
     (True, run evs (flagInvalidFormat format e1))"
proof -
  assume call: "formatIsValid c1 format e = (True, e1)"
  from formatIsValid_records[OF call] have v: "format \<in> validFormats (flagInvalidFormat format e1)"
    by (simp add: flagInvalidFormat_def)
  from run_validFormats_mono[OF v, of evs] v show ?thesis
    by (simp add: formatIsValid_accepted) (simp add: flagInvalidFormat_def)
qed

theorem flagInvalidFormat_keeps_valid_witness:
  "formatIsValid (\<lambda>m. ''maybe'') ''ogg''
      (WebAudioEngine_new \<lparr>ctx_id = 0, ctx_state = ''suspended''\<rparr> no_options) =
     (True, snd (formatIsValid (\<lambda>m. ''maybe'') ''ogg''
        (WebAudioEngine_new \<lparr>ctx_id = 0, ctx_state = ''suspended''\<rparr> no_options))) \<and>
   ''ogg'' \<in> invalidFormats (flagInvalidFormat ''ogg''
      (snd (formatIsValid (\<lambda>m. ''maybe'') ''ogg''
        (WebAudioEngine_new \<lparr>ctx_id = 0, ctx_state = ''suspended''\<rparr> no_options)))) \<and>
   fst (formatIsValid (\<lambda>m. '''') ''ogg''
      (run [CallFlagInvalidFormat ''ogg'']
        (flagInvalidFormat ''ogg''
          (snd (formatIsValid (\<lambda>m. ''maybe'') ''ogg''
            (WebAudioEngine_new \<lparr>ctx_id = 0, ctx_state = ''suspended''\<rparr> no_options))))))"
  using flagInvalidFormat_keeps_valid[where ?c1.0 = "\<lambda>m. ''maybe''" and format = "''ogg''"
      and e = "WebAudioEngine_new \<lparr>ctx_id = 0, ctx_state = ''suspended''\<rparr> no_options"
      and ?e1.0 = "snd (formatIsValid (\<lambda>m. ''maybe'') ''ogg''
        (WebAudioEngine_new \<lparr>ctx_id = 0, ctx_state = ''suspended''\<rparr> no_options))"
      and ?c2.0 = "\<lambda>m. ''''" and evs = "[CallFlagInvalidFormat ''ogg'']"]
  by (simp add: WebAudioEngine_new_def no_options_def formatIsValid_def formatMimeTypeMap_def
      flagInvalidFormat_def emit_def Let_def)

subsection \<open>Resume\<close>

text \<open>
  Claim C1. Two calls of \<open>resume\<close> in a row on a new engine whose context is suspended.
  The first call asks the context to resume and caches the promise (number 0), but its
  body ends without a \<^verbatim>\<open>return\<close>: the caller's promise is fulfilled with
  \<^verbatim>\<open>undefined\<close> at once. The second call returns the cached promise and does not ask
  the context again. The two callers therefore do not wait for the same promise.
\<close>

theorem resume_first_call_returns_undefined:
  "fst (resume (WebAudioEngine_new \<lparr>ctx_id = 0, ctx_state = ''suspended''\<rparr> no_options)) = None \<and>
   resumePromise (snd (resume (WebAudioEngine_new \<lparr>ctx_id = 0, ctx_state = ''suspended''\<rparr> no_options)))
     = Some 0 \<and>
   fst (resume (snd (resume (WebAudioEngine_new \<lparr>ctx_id = 0, ctx_state = ''suspended''\<rparr> no_options))))
     = Some 0 \<and>
   trace (snd (resume (snd (resume
       (WebAudioEngine_new \<lparr>ctx_id = 0, ctx_state = ''suspended''\<rparr> no_options))))) =
     [NewAudioContext, ContextResume 0]"
  by (simp add: WebAudioEngine_new_def no_options_def resume_def context_resume_def emit_def)

subsection \<open>The resume timer\<close>

text \<open>
  The invariant behind the timer: the started flag is set only after the callback has
  notified the observers of \<^verbatim>\<open>"running"\<close>, and so has every \<open>SetInterval\<close> of the
  trace. The callback notifies the observers of the state it has just seen, so
  \<open>NotifyObservers ''running''\<close> in the trace is the callback having seen the context
  running.
\<close>

definition resume_timer_inv :: "WebAudioEngine \<Rightarrow> bool" where
  "resume_timer_inv e =
     ((audioContextStarted e \<longrightarrow> NotifyObservers ''running'' \<in> set (trace e)) \<and>
      (\<forall>pre t d post. trace e = pre @ SetInterval t d # post \<longrightarrow>
         NotifyObservers ''running'' \<in> set pre))"

lemma resume_timer_inv_extend:
  assumes inv: "resume_timer_inv e"
    and tr: "trace e' = trace e @ new"
    and sched: "(\<exists>t d. SetInterval t d \<in> set new) \<longrightarrow> audioContextStarted e"
    and started: "audioContextStarted e' \<longrightarrow>
                    audioContextStarted e \<or> NotifyObservers ''running'' \<in> set new"
  shows "resume_timer_inv e'"
  unfolding resume_timer_inv_def
proof (intro conjI allI impI)
  assume "audioContextStarted e'"
  with started inv tr show "NotifyObservers ''running'' \<in> set (trace e')"
    by (auto simp: resume_timer_inv_def)
next
  fix pre t d post
  assume "trace e' = pre @ SetInterval t d # post"
  with tr have "trace e @ new = pre @ SetInterval t d # post" by simp
  then obtain us where
    "(trace e = pre @ us \<and> us @ new = SetInterval t d # post) \<or>
     (trace e @ us = pre \<and> new = us @ SetInterval t d # post)"
    by (auto simp: append_eq_append_conv2)
  then show "NotifyObservers ''running'' \<in> set pre"
  proof
    assume a: "trace e = pre @ us \<and> us @ new = SetInterval t d # post"
    show ?thesis
    proof (cases us)
      case Nil
      with a have "SetInterval t d \<in> set new" "trace e = pre" by auto
      with sched inv show ?thesis by (auto simp: resume_timer_inv_def)
    next
      case (Cons u us')
      with a have "trace e = pre @ SetInterval t d # us'" by simp
      with inv show ?thesis by (auto simp: resume_timer_inv_def)
    qed
  next
    assume a: "trace e @ us = pre \<and> new = us @ SetInterval t d # post"
    then have "SetInterval t d \<in> set new" by simp
    with sched inv have "NotifyObservers ''running'' \<in> set (trace e)"
      by (auto simp: resume_timer_inv_def)
    with a show ?thesis by auto
  qed
qed

lemma step_trace:
  "\<exists>new. trace (step ev e) = trace e @ new \<and>
         ((\<exists>t d. SetInterval t d \<in> set new) \<longrightarrow> audioContextStarted e) \<and>
         (audioContextStarted (step ev e) \<longrightarrow>
            audioContextStarted e \<or> NotifyObservers ''running'' \<in> set new)"
proof (cases ev)
  case ClickResumed
  from loop_drains[of 0 e] obtain xs where
    "trace (onUserInteraction_loop 0 e) = trace e @ map Play xs" by auto
  with ClickResumed show ?thesis
    by (auto simp: onUserInteraction_resumed_def)
qed (auto simp: engine_defs Let_def split: option.splits prod.splits if_splits)

lemma step_resume_timer_inv: "resume_timer_inv e \<Longrightarrow> resume_timer_inv (step ev e)"
  using step_trace[of ev e] resume_timer_inv_extend[of e "step ev e"] by blast

lemma run_resume_timer_inv: "resume_timer_inv e \<Longrightarrow> resume_timer_inv (run evs e)"
  by (induction evs arbitrary: e) (simp_all add: step_resume_timer_inv)

lemma new_resume_timer_inv: "resume_timer_inv (WebAudioEngine_new fresh options)"
  by (auto simp: resume_timer_inv_def WebAudioEngine_new_def Cons_eq_append_conv
      split: option.splits)

text \<open>
  Claim C6. The state-change callback, by the state it sees. Running: the timer is
  cleared (its number is no longer live), the context is marked as started and the
  cached resume promise is dropped; no timer is set. Suspended or interrupted: if the
  context has started and resume-on-pause is on, the old timer is cleared first and
  then a new one is set with the retry interval and stored, so that the live timers
  are the former ones less the old timer, plus the new one; otherwise no timer is
  touched. In every run of events from a new engine, each \<open>SetInterval\<close> of the trace
  comes after a notification of \<^verbatim>\<open>"running"\<close>: the timer is never set before the
  callback has seen the context running.
\<close>

theorem resume_timer_only_after_running:
  "(state e = ''running'' \<longrightarrow>
      audioContextStarted (onAudioContextStateChange e) \<and>
      resumePromise (onAudioContextStateChange e) = None \<and>
      (\<forall>t. resumeOnPauseTimerId e = Some t \<longrightarrow> t \<notin> activeTimers (onAudioContextStateChange e)) \<and>
      trace (onAudioContextStateChange e) =
        trace e @ [ClearInterval (resumeOnPauseTimerId e), NotifyObservers ''running'']) \<and>
   (state e = ''suspended'' \<or> state e = ''interrupted'' \<longrightarrow>
      (if audioContextStarted e \<and> resumeOnPause e
       then trace (onAudioContextStateChange e) =
              trace e @ [ClearInterval (resumeOnPauseTimerId e),
                         SetInterval (nextTimerId e) (resumeOnPauseRetryInterval e),
                         NotifyObservers (state e)] \<and>
            resumeOnPauseTimerId (onAudioContextStateChange e) = Some (nextTimerId e) \<and>
            activeTimers (onAudioContextStateChange e) =
              insert (nextTimerId e) (activeTimers e - set_option (resumeOnPauseTimerId e))
       else trace (onAudioContextStateChange e) = trace e @ [NotifyObservers (state e)] \<and>
            resumeOnPauseTimerId (onAudioContextStateChange e) = resumeOnPauseTimerId e \<and>
            activeTimers (onAudioContextStateChange e) = activeTimers e)) \<and>
   (trace (run evs (WebAudioEngine_new fresh options)) = pre @ SetInterval t d # post \<longrightarrow>
      NotifyObservers ''running'' \<in> set pre)"
proof (intro conjI)
  show "state e = ''running'' \<longrightarrow>
      audioContextStarted (onAudioContextStateChange e) \<and>
      resumePromise (onAudioContextStateChange e) = None \<and>
      (\<forall>t. resumeOnPauseTimerId e = Some t \<longrightarrow> t \<notin> activeTimers (onAudioContextStateChange e)) \<and>
      trace (onAudioContextStateChange e) =
        trace e @ [ClearInterval (resumeOnPauseTimerId e), NotifyObservers ''running'']"
    by (auto simp: engine_defs Let_def split: option.splits)
  show "state e = ''suspended'' \<or> state e = ''interrupted'' \<longrightarrow>
      (if audioContextStarted e \<and> resumeOnPause e
       then trace (onAudioContextStateChange e) =
              trace e @ [ClearInterval (resumeOnPauseTimerId e),
                         SetInterval (nextTimerId e) (resumeOnPauseRetryInterval e),
                         NotifyObservers (state e)] \<and>
            resumeOnPauseTimerId (onAudioContextStateChange e) = Some (nextTimerId e) \<and>
            activeTimers (onAudioContextStateChange e) =
              insert (nextTimerId e) (activeTimers e - set_option (resumeOnPauseTimerId e))
       else trace (onAudioContextStateChange e) = trace e @ [NotifyObservers (state e)] \<and>
            resumeOnPauseTimerId (onAudioContextStateChange e) = resumeOnPauseTimerId e \<and>
            activeTimers (onAudioContextStateChange e) = activeTimers e)"
    by (auto simp: engine_defs Let_def split: option.splits)
  from run_resume_timer_inv[OF new_resume_timer_inv, of evs fresh options]
  show "trace (run evs (WebAudioEngine_new fresh options)) = pre @ SetInterval t d # post \<longrightarrow>
      NotifyObservers ''running'' \<in> set pre"
    by (simp add: resume_timer_inv_def)
qed

theorem resume_timer_only_after_running_witness:
  "state (WebAudioEngine_new \<lparr>ctx_id = 0, ctx_state = ''running''\<rparr> no_options) = ''running'' \<and>
   audioContextStarted (onAudioContextStateChange
     (WebAudioEngine_new \<lparr>ctx_id = 0, ctx_state = ''running''\<rparr> no_options)) \<and>
   state (run [CallInit None, StateChange ''running'', StateChange ''suspended'']
     (WebAudioEngine_new \<lparr>ctx_id = 0, ctx_state = ''suspended''\<rparr> no_options)) = ''suspended'' \<and>
   audioContextStarted (run [CallInit None, StateChange ''running'', StateChange ''suspended'']
     (WebAudioEngine_new \<lparr>ctx_id = 0, ctx_state = ''suspended''\<rparr> no_options)) \<and>
   resumeOnPause (run [CallInit None, StateChange ''running'', StateChange ''suspended'']
     (WebAudioEngine_new \<lparr>ctx_id = 0, ctx_state = ''suspended''\<rparr> no_options)) \<and>
   activeTimers (onAudioContextStateChange
     (run [CallInit None, StateChange ''running'', StateChange ''suspended'']
       (WebAudioEngine_new \<lparr>ctx_id = 0, ctx_state = ''suspended''\<rparr> no_options))) = {1} \<and>
   state (run [CallInit None, StateChange ''interrupted'']
     (WebAudioEngine_new \<lparr>ctx_id = 0, ctx_state = ''suspended''\<rparr> no_options)) = ''interrupted'' \<and>
   activeTimers (onAudioContextStateChange (run [CallInit None, StateChange ''interrupted'']
     (WebAudioEngine_new \<lparr>ctx_id = 0, ctx_state = ''suspended''\<rparr> no_options))) = {} \<and>
   trace (run [CallInit None, StateChange ''running'', StateChange ''suspended'']
     (WebAudioEngine_new \<lparr>ctx_id = 0, ctx_state = ''suspended''\<rparr> no_options)) =
     [NewAudioContext, AddClickListener, AddStateChangeListener, CreateMainAudioOutput,
      ClearInterval None, NotifyObservers ''running'', ClearInterval None]
     @ SetInterval 0 (Num 1000) # [NotifyObservers ''suspended''] \<and>
   NotifyObservers ''running'' \<in> set
     [NewAudioContext, AddClickListener, AddStateChangeListener, CreateMainAudioOutput,
      ClearInterval None, NotifyObservers ''running'', ClearInterval None]"
  using resume_timer_only_after_running[where
      e = "WebAudioEngine_new \<lparr>ctx_id = 0, ctx_state = ''running''\<rparr> no_options"]
    resume_timer_only_after_running[where
      e = "run [CallInit None, StateChange ''running'', StateChange ''suspended'']
             (WebAudioEngine_new \<lparr>ctx_id = 0, ctx_state = ''suspended''\<rparr> no_options)"]
    resume_timer_only_after_running[where
      e = "run [CallInit None, StateChange ''interrupted'']
             (WebAudioEngine_new \<lparr>ctx_id = 0, ctx_state = ''suspended''\<rparr> no_options)"
      and evs = "[CallInit None, StateChange ''running'', StateChange ''suspended'']"
      and fresh = "\<lparr>ctx_id = 0, ctx_state = ''suspended''\<rparr>" and options = no_options
      and pre = "[NewAudioContext, AddClickListener, AddStateChangeListener, CreateMainAudioOutput,
                  ClearInterval None, NotifyObservers ''running'', ClearInterval None]"
      and t = 0 and d = "Num 1000" and post = "[NotifyObservers ''suspended'']"]
  by (simp add: WebAudioEngine_new_def no_options_def engine_defs option_field_def Let_def)

subsection \<open>Creation\<close>

text \<open>
  Claim C7. When the options carry no audio context, the constructor creates one and
  the engine holds it. If the main output and the default bus are both created,
  \<open>CreateAudioEngineAsync\<close> is fulfilled; the outgoing calls are, in this order, the
  creation of the context, the two listeners, the creation of the main output, the write
  of its volume, the creation of the bus \<^verbatim>\<open>"default"\<close> and, last and only once, the
  resolution of the readiness promise, which is then fulfilled. If either creation
  fails, the readiness promise is never resolved and stays pending.
\<close>

theorem engine_creation_ready_once:
  assumes "opt_audioContext (case options of None \<Rightarrow> no_options | Some opts \<Rightarrow> opts) = None"
  shows
  "audioContext (WebAudioEngine_new fresh (case options of None \<Rightarrow> no_options | Some opts \<Rightarrow> opts))
     = fresh \<and>
   trace (WebAudioEngine_new fresh (case options of None \<Rightarrow> no_options | Some opts \<Rightarrow> opts))
     = [NewAudioContext] \<and>
   audioContext (snd (CreateAudioEngineAsync fresh options createdOutput busCreated)) = fresh \<and>
   (\<forall>out. createdOutput = Some out \<and> busCreated \<longrightarrow>
      fst (CreateAudioEngineAsync fresh options createdOutput busCreated) \<and>
      trace (snd (CreateAudioEngineAsync fresh options createdOutput busCreated)) =
        [NewAudioContext, AddClickListener, AddStateChangeListener, CreateMainAudioOutput,
         SetMainOutputVolume (Num 1), CreateMainAudioBus ''default'', ResolveIsReadyPromise] \<and>
      mainOutput (snd (CreateAudioEngineAsync fresh options createdOutput busCreated)) =
        Some (out\<lparr>output_volume := Num 1\<rparr>) \<and>
      isReadyPromise (snd (CreateAudioEngineAsync fresh options createdOutput busCreated)) = Fulfilled) \<and>
   (createdOutput = None \<or> \<not> busCreated \<longrightarrow>
      \<not> fst (CreateAudioEngineAsync fresh options createdOutput busCreated) \<and>
      hd (trace (snd (CreateAudioEngineAsync fresh options createdOutput busCreated))) =
        NewAudioContext \<and>
      ResolveIsReadyPromise \<notin>
        set (trace (snd (CreateAudioEngineAsync fresh options createdOutput busCreated))) \<and>
      isReadyPromise (snd (CreateAudioEngineAsync fresh options createdOutput busCreated)) = Pending)"
  using assms
  by (auto simp: CreateAudioEngineAsync_def WebAudioEngine_new_def engine_defs Let_def
      split: option.splits)

theorem engine_creation_ready_once_witness:
  "opt_audioContext (case None of None \<Rightarrow> no_options | Some opts \<Rightarrow> opts) = None \<and>
   CreateAudioEngineAsync \<lparr>ctx_id = 7, ctx_state = ''suspended''\<rparr> None
       (Some \<lparr>output_volume = Num 0\<rparr>) True =
     (True,
      \<lparr>audioContextStarted = False, resumePromise = None,
       mainOutput = Some \<lparr>output_volume = Num 1\<rparr>, invalidFormats = {}, validFormats = {},
       volume = Num 1, audioContext = \<lparr>ctx_id = 7, ctx_state = ''suspended''\<rparr>,
       isReadyPromise = Fulfilled, resumeOnInteraction = True, resumeOnPause = True,
       resumeOnPauseRetryInterval = Num 1000, resumeOnPauseTimerId = None,
       soundInstancesToStartOnNextUserInteraction = [], clickListener = True,
       stateChangeListener = True, activeTimers = {}, nextTimerId = 0, nextPromiseId = 0,
       trace = [NewAudioContext, AddClickListener, AddStateChangeListener, CreateMainAudioOutput,
                SetMainOutputVolume (Num 1), CreateMainAudioBus ''default'',
                ResolveIsReadyPromise]\<rparr>) \<and>
   isReadyPromise (snd (CreateAudioEngineAsync \<lparr>ctx_id = 7, ctx_state = ''suspended''\<rparr> None
       (Some \<lparr>output_volume = Num 0\<rparr>) False)) = Pending"
  using engine_creation_ready_once[of None "\<lparr>ctx_id = 7, ctx_state = ''suspended''\<rparr>"
      "Some \<lparr>output_volume = Num 0\<rparr>" True]
    engine_creation_ready_once[of None "\<lparr>ctx_id = 7, ctx_state = ''suspended''\<rparr>"
      "Some \<lparr>output_volume = Num 0\<rparr>" False]
  by (simp add: CreateAudioEngineAsync_def WebAudioEngine_new_def engine_defs Let_def
      no_options_def option_field_def)

subsection \<open>User interaction\<close>

text \<open>
  Claim C8. Once the awaited \<^verbatim>\<open>audioContext.resume()\<close> is fulfilled, the handler
  plays every instance of the pending set, each exactly once and nothing else, and the
  set is empty when it finishes; this holds for whatever the set holds at that moment.
  For a whole handler run with resume-on-interaction on, the outgoing calls are the
  context's \<^verbatim>\<open>resume()\<close> followed by those plays. \<^verbatim>\<open>instance.play()\<close> is taken
  not to call back into the engine.
\<close>

theorem user_interaction_drains_pending:
  "(\<exists>xs. trace (onUserInteraction_resumed e) = trace e @ map Play xs \<and> distinct xs \<and>
         set xs = set (set_values (soundInstancesToStartOnNextUserInteraction e))) \<and>
   set_size (soundInstancesToStartOnNextUserInteraction (onUserInteraction_resumed e)) = 0 \<and>
   (resumeOnInteraction e \<longrightarrow>
      (\<exists>xs. trace (onUserInteraction e) = trace e @ ContextResume (nextPromiseId e) # map Play xs \<and>
            distinct xs \<and>
            set xs = set (set_values (soundInstancesToStartOnNextUserInteraction e))) \<and>
      set_size (soundInstancesToStartOnNextUserInteraction (onUserInteraction e)) = 0)"
proof -
  have resumed: "(\<exists>xs. trace (onUserInteraction_resumed e') = trace e' @ map Play xs \<and> distinct xs \<and>
         set xs = set (set_values (soundInstancesToStartOnNextUserInteraction e'))) \<and>
       set_size (soundInstancesToStartOnNextUserInteraction (onUserInteraction_resumed e')) = 0"
    for e'
    using loop_drains[of 0 e']
    by (auto simp: onUserInteraction_resumed_def set_values_set set_size_def set_values_blank)
  have "soundInstancesToStartOnNextUserInteraction (onUserInteraction_begin e) =
          soundInstancesToStartOnNextUserInteraction e"
    by (simp add: onUserInteraction_begin_def context_resume_def emit_def)
  moreover have "resumeOnInteraction e \<Longrightarrow>
      trace (onUserInteraction_begin e) = trace e @ [ContextResume (nextPromiseId e)]"
    by (simp add: onUserInteraction_begin_def context_resume_def emit_def)
  ultimately show ?thesis
    using resumed[of e] resumed[of "onUserInteraction_begin e"]
    by (auto simp: onUserInteraction_def)
qed

theorem user_interaction_drains_pending_witness:
  "resumeOnInteraction
     (startSoundInstanceOnNextUserInteraction 7 (startSoundInstanceOnNextUserInteraction 3
        (WebAudioEngine_new \<lparr>ctx_id = 0, ctx_state = ''suspended''\<rparr> no_options))) \<and>
   set_values (soundInstancesToStartOnNextUserInteraction
     (startSoundInstanceOnNextUserInteraction 7 (startSoundInstanceOnNextUserInteraction 3
        (WebAudioEngine_new \<lparr>ctx_id = 0, ctx_state = ''suspended''\<rparr> no_options)))) = [3, 7] \<and>
   set_size (soundInstancesToStartOnNextUserInteraction (onUserInteraction
     (startSoundInstanceOnNextUserInteraction 7 (startSoundInstanceOnNextUserInteraction 3
        (WebAudioEngine_new \<lparr>ctx_id = 0, ctx_state = ''suspended''\<rparr> no_options))))) = 0 \<and>
   trace (onUserInteraction
     (startSoundInstanceOnNextUserInteraction 7 (startSoundInstanceOnNextUserInteraction 3
        (WebAudioEngine_new \<lparr>ctx_id = 0, ctx_state = ''suspended''\<rparr> no_options)))) =
     [NewAudioContext, ContextResume 0, Play 3, Play 7]"
  using user_interaction_drains_pending[of
     "startSoundInstanceOnNextUserInteraction 7 (startSoundInstanceOnNextUserInteraction 3
        (WebAudioEngine_new \<lparr>ctx_id = 0, ctx_state = ''suspended''\<rparr> no_options))"]
  by (simp add: WebAudioEngine_new_def no_options_def engine_defs set_add_def set_has_def
      set_values_def List.map_filter_simps set_size_def set_delete_def
      onUserInteraction_loop.simps it_next.simps)

section \<open>Properties of the spatial blur pass\<close>

named_theorems pass_defs

lemmas [pass_defs] = getPassPP_def createDebugPass_def getDebugPassPP_def setWorldScale_def
  setDebugDisplayParams_def createTextures_def IblShadowsSpatialBlurPass_new_def
  new_PostProcess_def pass_dispose_def set_ready_def

subsection \<open>Readiness\<close>

text \<open>
  Claim C3. \<open>isReady\<close> is true exactly when the output post-process is ready and the
  debug post-process, if there is one, is ready too; so it is false whenever the output
  post-process is not ready.
\<close>

theorem isReady_iff:
  "(isReady p \<longleftrightarrow>
      pp_isReady (outputPP p) \<and> (\<forall>debugPP. debugPassPP p = Some debugPP \<longrightarrow> pp_isReady debugPP)) \<and>
   (\<not> pp_isReady (outputPP p) \<longrightarrow> \<not> isReady p)"
  by (auto simp: isReady_def split: option.splits)

theorem isReady_iff_witness:
  "isReady (pass_run [ReadyChanged 0 True]
     (IblShadowsSpatialBlurPass_new 0
        \<lparr>getEngine = \<lparr>getRenderWidth = 800, getRenderHeight = 600\<rparr>, prePassRenderer = None\<rparr>)) \<and>
   pp_isReady (outputPP (pass_run [CallGetDebugPassPP, ReadyChanged 0 True]
     (IblShadowsSpatialBlurPass_new 0
        \<lparr>getEngine = \<lparr>getRenderWidth = 800, getRenderHeight = 600\<rparr>, prePassRenderer = None\<rparr>))) \<and>
   \<not> isReady (pass_run [CallGetDebugPassPP, ReadyChanged 0 True]
     (IblShadowsSpatialBlurPass_new 0
        \<lparr>getEngine = \<lparr>getRenderWidth = 800, getRenderHeight = 600\<rparr>, prePassRenderer = None\<rparr>)) \<and>
   \<not> pp_isReady (outputPP (pass_run [CallGetDebugPassPP, ReadyChanged 1 True]
     (IblShadowsSpatialBlurPass_new 0
        \<lparr>getEngine = \<lparr>getRenderWidth = 800, getRenderHeight = 600\<rparr>, prePassRenderer = None\<rparr>))) \<and>
   \<not> isReady (pass_run [CallGetDebugPassPP, ReadyChanged 1 True]
     (IblShadowsSpatialBlurPass_new 0
        \<lparr>getEngine = \<lparr>getRenderWidth = 800, getRenderHeight = 600\<rparr>, prePassRenderer = None\<rparr>))"
  using isReady_iff[of "pass_run [ReadyChanged 0 True]
     (IblShadowsSpatialBlurPass_new 0
        \<lparr>getEngine = \<lparr>getRenderWidth = 800, getRenderHeight = 600\<rparr>, prePassRenderer = None\<rparr>)"]
    isReady_iff[of "pass_run [CallGetDebugPassPP, ReadyChanged 0 True]
     (IblShadowsSpatialBlurPass_new 0
        \<lparr>getEngine = \<lparr>getRenderWidth = 800, getRenderHeight = 600\<rparr>, prePassRenderer = None\<rparr>)"]
    isReady_iff[of "pass_run [CallGetDebugPassPP, ReadyChanged 1 True]
     (IblShadowsSpatialBlurPass_new 0
        \<lparr>getEngine = \<lparr>getRenderWidth = 800, getRenderHeight = 600\<rparr>, prePassRenderer = None\<rparr>)"]
  by (simp add: pass_defs Let_def)

subsection \<open>The debug pass\<close>

lemma pass_step_debug:
  "(debugPassPP (pass_step ev p) \<noteq> None) = (debugPassPP p \<noteq> None \<or> ev = CallGetDebugPassPP)"
  by (cases ev) (auto simp: pass_defs Let_def split: option.splits)

lemma pass_step_created:
  "postProcessesCreated (pass_step ev p) =
     postProcessesCreated p + (if debugPassPP p = None \<and> ev = CallGetDebugPassPP then 1 else 0)"
  by (cases ev) (auto simp: pass_defs Let_def split: option.splits)

lemma pass_run_debug:
  "(debugPassPP (pass_run evs p) \<noteq> None) = (debugPassPP p \<noteq> None \<or> CallGetDebugPassPP \<in> set evs)"
proof (induction evs arbitrary: p)
  case Nil
  show ?case by simp
next
  case (Cons ev evs)
  show ?case
    unfolding pass_run.simps Cons.IH pass_step_debug by auto
qed

lemma pass_run_created:
  "postProcessesCreated (pass_run evs p) =
     postProcessesCreated p +
     (if debugPassPP p = None \<and> CallGetDebugPassPP \<in> set evs then 1 else 0)"
proof (induction evs arbitrary: p)
  case Nil
  show ?case by simp
next
  case (Cons ev evs)
  show ?case
    using pass_step_debug[of ev p]
    by (simp add: Cons.IH pass_step_created) auto
qed

lemma pass_step_same_debug:
  "debugPassPP p = Some d \<Longrightarrow>
   \<exists>d'. debugPassPP (pass_step ev p) = Some d' \<and> pp_id d' = pp_id d"
  by (cases ev) (auto simp: pass_defs Let_def split: option.splits)

lemma pass_run_same_debug:
  "debugPassPP p = Some d \<Longrightarrow>
   \<exists>d'. debugPassPP (pass_run evs p) = Some d' \<and> pp_id d' = pp_id d"
proof (induction evs arbitrary: p d)
  case Nil
  then show ?case by simp
next
  case (Cons ev evs)
  from pass_step_same_debug[OF Cons.prems, of ev]
  obtain d' where "debugPassPP (pass_step ev p) = Some d'" "pp_id d' = pp_id d" by auto
  with Cons.IH[of "pass_step ev p" d'] show ?case by simp
qed

lemma getDebugPassPP_existing:
  "debugPassPP p = Some d \<Longrightarrow> getDebugPassPP p = (Some d, p)"
  by (simp add: getDebugPassPP_def)

lemma getDebugPassPP_returns:
  "\<exists>d. fst (getDebugPassPP p) = Some d \<and> debugPassPP (snd (getDebugPassPP p)) = Some d"
  by (auto simp: getDebugPassPP_def createDebugPass_def Let_def)

text \<open>
  Claim C4. After any events on a newly constructed pass, the debug post-process exists
  exactly when \<open>getDebugPassPP\<close> has been called, and the number of post-processes
  created is the output one plus one more exactly in that case. On any pass,
  \<open>getDebugPassPP\<close> returns a post-process; it creates one only if none existed; and
  after any further events it returns the post-process of the same identity and
  creates nothing.
\<close>

theorem debug_pass_lazy:
  "((debugPassPP (pass_run evs (IblShadowsSpatialBlurPass_new created scn)) \<noteq> None) =
      (CallGetDebugPassPP \<in> set evs)) \<and>
   postProcessesCreated (pass_run evs (IblShadowsSpatialBlurPass_new created scn)) =
      created + 1 + (if CallGetDebugPassPP \<in> set evs then 1 else 0) \<and>
   (\<exists>d. fst (getDebugPassPP p) = Some d \<and>
        postProcessesCreated (snd (getDebugPassPP p)) =
          postProcessesCreated p + (if debugPassPP p = None then 1 else 0) \<and>
        map_option pp_id (fst (getDebugPassPP (pass_run evs (snd (getDebugPassPP p))))) =
          Some (pp_id d) \<and>
        postProcessesCreated (snd (getDebugPassPP (pass_run evs (snd (getDebugPassPP p))))) =
          postProcessesCreated (snd (getDebugPassPP p)))"
proof (intro conjI)
  have fresh: "debugPassPP (IblShadowsSpatialBlurPass_new created scn) = None"
    "postProcessesCreated (IblShadowsSpatialBlurPass_new created scn) = created + 1"
    by (simp_all add: pass_defs Let_def)
  show "(debugPassPP (pass_run evs (IblShadowsSpatialBlurPass_new created scn)) \<noteq> None) =
      (CallGetDebugPassPP \<in> set evs)"
    unfolding pass_run_debug using fresh by simp
  show "postProcessesCreated (pass_run evs (IblShadowsSpatialBlurPass_new created scn)) =
      created + 1 + (if CallGetDebugPassPP \<in> set evs then 1 else 0)"
    unfolding pass_run_created using fresh by simp
  from getDebugPassPP_returns[of p] obtain d where
    d: "fst (getDebugPassPP p) = Some d" "debugPassPP (snd (getDebugPassPP p)) = Some d"
    by auto
  let ?p1 = "snd (getDebugPassPP p)"
  from pass_run_same_debug[OF d(2), of evs] obtain d' where
    d': "debugPassPP (pass_run evs ?p1) = Some d'" "pp_id d' = pp_id d"
    by auto
  have again: "getDebugPassPP (pass_run evs ?p1) = (Some d', pass_run evs ?p1)"
    by (rule getDebugPassPP_existing[OF d'(1)])
  have count: "postProcessesCreated ?p1 =
      postProcessesCreated p + (if debugPassPP p = None then 1 else 0)"
    by (simp add: getDebugPassPP_def createDebugPass_def Let_def)
  have "postProcessesCreated (pass_run evs ?p1) = postProcessesCreated ?p1"
    unfolding pass_run_created using d(2) by simp
  with d d' again count
  show "\<exists>d. fst (getDebugPassPP p) = Some d \<and>
        postProcessesCreated (snd (getDebugPassPP p)) =
          postProcessesCreated p + (if debugPassPP p = None then 1 else 0) \<and>
        map_option pp_id (fst (getDebugPassPP (pass_run evs (snd (getDebugPassPP p))))) =
          Some (pp_id d) \<and>
        postProcessesCreated (snd (getDebugPassPP (pass_run evs (snd (getDebugPassPP p))))) =
          postProcessesCreated (snd (getDebugPassPP p))"
    by simp
qed

theorem debug_pass_lazy_witness:
  "debugPassPP (pass_run [CallSetWorldScale (Num 2), CallIsReady]
     (IblShadowsSpatialBlurPass_new 5
        \<lparr>getEngine = \<lparr>getRenderWidth = 800, getRenderHeight = 600\<rparr>, prePassRenderer = None\<rparr>)) = None \<and>
   map_option pp_id (fst (getDebugPassPP
     (IblShadowsSpatialBlurPass_new 5
        \<lparr>getEngine = \<lparr>getRenderWidth = 800, getRenderHeight = 600\<rparr>, prePassRenderer = None\<rparr>))) =
     Some 6 \<and>
   map_option pp_id (fst (getDebugPassPP (pass_run [CallPassDispose, CallGetDebugPassPP]
     (snd (getDebugPassPP
       (IblShadowsSpatialBlurPass_new 5
          \<lparr>getEngine = \<lparr>getRenderWidth = 800, getRenderHeight = 600\<rparr>,
           prePassRenderer = None\<rparr>)))))) = Some 6 \<and>
   postProcessesCreated (snd (getDebugPassPP (pass_run [CallPassDispose, CallGetDebugPassPP]
     (snd (getDebugPassPP
       (IblShadowsSpatialBlurPass_new 5
          \<lparr>getEngine = \<lparr>getRenderWidth = 800, getRenderHeight = 600\<rparr>,
           prePassRenderer = None\<rparr>)))))) = 7"
  using debug_pass_lazy[where evs = "[CallSetWorldScale (Num 2), CallIsReady]" and created = 5
      and scn = "\<lparr>getEngine = \<lparr>getRenderWidth = 800, getRenderHeight = 600\<rparr>,
                  prePassRenderer = None\<rparr>"]
    debug_pass_lazy[where evs = "[CallPassDispose, CallGetDebugPassPP]" and created = 5
      and scn = "\<lparr>getEngine = \<lparr>getRenderWidth = 800, getRenderHeight = 600\<rparr>,
                  prePassRenderer = None\<rparr>"
      and p = "IblShadowsSpatialBlurPass_new 5
          \<lparr>getEngine = \<lparr>getRenderWidth = 800, getRenderHeight = 600\<rparr>,
           prePassRenderer = None\<rparr>"]
  by (simp add: pass_defs Let_def)

subsection \<open>Uniforms and samplers\<close>

lemma pass_step_onApply: "onApply (outputPP (pass_step ev p)) = onApply (outputPP p)"
  by (cases ev) (auto simp: pass_defs Let_def split: option.splits)

lemma pass_run_onApply: "onApply (outputPP (pass_run evs p)) = onApply (outputPP p)"
  by (induction evs arbitrary: p) (simp_all add: pass_step_onApply)

text \<open>
  Claim C5. The \<^verbatim>\<open>onApply\<close> callback of the output post-process is
  \<open>updatePostProcess\<close>, whatever happened to the pass since its construction. Its first
  call on the effect sets \<^verbatim>\<open>blurParameters\<close> to (1, world scale, 0, 0). Without a
  prepass renderer nothing else is called. With one, the world-normal sampler is set
  exactly when the world-normal index is not negative, to the texture at that index,
  and likewise the linear-depth sampler for the depth index; nothing else is called. The
  function has no failing branch: a negative index only skips the call.
\<close>

theorem updatePostProcess_bindings:
  "apply_callback (pass_run evs (IblShadowsSpatialBlurPass_new created scn))
      (outputPP (pass_run evs (IblShadowsSpatialBlurPass_new created scn))) effect =
     updatePostProcess (pass_run evs (IblShadowsSpatialBlurPass_new created scn)) effect \<and>
   (\<exists>rest. updatePostProcess p effect =
        effect @ SetVector4 ''blurParameters'' (Vector4 (Num 1) (worldScale p) (Num 0) (Num 0)) # rest \<and>
      (prePassRenderer (scene p) = None \<longrightarrow> rest = []) \<and>
      (\<forall>renderer. prePassRenderer (scene p) = Some renderer \<longrightarrow>
         (\<forall>tex. SetTexture ''worldNormalSampler'' tex \<in> set rest \<longleftrightarrow>
            0 \<le> getIndex renderer PREPASS_WORLD_NORMAL_TEXTURE_TYPE \<and>
            tex = array_get (textures renderer) (getIndex renderer PREPASS_WORLD_NORMAL_TEXTURE_TYPE)) \<and>
         (\<forall>tex. SetTexture ''linearDepthSampler'' tex \<in> set rest \<longleftrightarrow>
            0 \<le> getIndex renderer PREPASS_DEPTH_TEXTURE_TYPE \<and>
            tex = array_get (textures renderer) (getIndex renderer PREPASS_DEPTH_TEXTURE_TYPE)) \<and>
         length rest =
           (if 0 \<le> getIndex renderer PREPASS_WORLD_NORMAL_TEXTURE_TYPE then 1 else 0) +
           (if 0 \<le> getIndex renderer PREPASS_DEPTH_TEXTURE_TYPE then 1 else 0)))"
proof
  have "onApply (outputPP (IblShadowsSpatialBlurPass_new created scn)) = Some UpdatePostProcess"
    by (simp add: pass_defs Let_def)
  then show "apply_callback (pass_run evs (IblShadowsSpatialBlurPass_new created scn))
      (outputPP (pass_run evs (IblShadowsSpatialBlurPass_new created scn))) effect =
     updatePostProcess (pass_run evs (IblShadowsSpatialBlurPass_new created scn)) effect"
    by (simp add: apply_callback_def pass_run_onApply)
next
  show "\<exists>rest. updatePostProcess p effect =
        effect @ SetVector4 ''blurParameters'' (Vector4 (Num 1) (worldScale p) (Num 0) (Num 0)) # rest \<and>
      (prePassRenderer (scene p) = None \<longrightarrow> rest = []) \<and>
      (\<forall>renderer. prePassRenderer (scene p) = Some renderer \<longrightarrow>
         (\<forall>tex. SetTexture ''worldNormalSampler'' tex \<in> set rest \<longleftrightarrow>
            0 \<le> getIndex renderer PREPASS_WORLD_NORMAL_TEXTURE_TYPE \<and>
            tex = array_get (textures renderer) (getIndex renderer PREPASS_WORLD_NORMAL_TEXTURE_TYPE)) \<and>
         (\<forall>tex. SetTexture ''linearDepthSampler'' tex \<in> set rest \<longleftrightarrow>
            0 \<le> getIndex renderer PREPASS_DEPTH_TEXTURE_TYPE \<and>
            tex = array_get (textures renderer) (getIndex renderer PREPASS_DEPTH_TEXTURE_TYPE)) \<and>
         length rest =
           (if 0 \<le> getIndex renderer PREPASS_WORLD_NORMAL_TEXTURE_TYPE then 1 else 0) +
           (if 0 \<le> getIndex renderer PREPASS_DEPTH_TEXTURE_TYPE then 1 else 0))"
    by (cases "prePassRenderer (scene p)") (auto simp: updatePostProcess_def Let_def)
qed

theorem updatePostProcess_bindings_witness:
  "getIndex \<lparr>getIndex = (\<lambda>c. if c = PREPASS_DEPTH_TEXTURE_TYPE then 1 else - 1),
             textures = [10, 11]\<rparr> PREPASS_WORLD_NORMAL_TEXTURE_TYPE < 0 \<and>
   updatePostProcess
     (pass_run [CallSetWorldScale (Num 3)]
        (IblShadowsSpatialBlurPass_new 0
           \<lparr>getEngine = \<lparr>getRenderWidth = 800, getRenderHeight = 600\<rparr>,
            prePassRenderer =
              Some \<lparr>getIndex = (\<lambda>c. if c = PREPASS_DEPTH_TEXTURE_TYPE then 1 else - 1),
                    textures = [10, 11]\<rparr>\<rparr>)) [] =
     [SetVector4 ''blurParameters'' (Vector4 (Num 1) (Num 3) (Num 0) (Num 0)),
      SetTexture ''linearDepthSampler'' (Some 11)] \<and>
   updatePostProcess
     (IblShadowsSpatialBlurPass_new 0
        \<lparr>getEngine = \<lparr>getRenderWidth = 800, getRenderHeight = 600\<rparr>, prePassRenderer = None\<rparr>) [] =
     [SetVector4 ''blurParameters'' (Vector4 (Num 1) (Num 1) (Num 0) (Num 0))]"
  using updatePostProcess_bindings[where evs = "[CallSetWorldScale (Num 3)]" and created = 0
      and effect = "[]"
      and scn = "\<lparr>getEngine = \<lparr>getRenderWidth = 800, getRenderHeight = 600\<rparr>,
            prePassRenderer =
              Some \<lparr>getIndex = (\<lambda>c. if c = PREPASS_DEPTH_TEXTURE_TYPE then 1 else - 1),
                    textures = [10, 11]\<rparr>\<rparr>"
      and p = "pass_run [CallSetWorldScale (Num 3)]
        (IblShadowsSpatialBlurPass_new 0
           \<lparr>getEngine = \<lparr>getRenderWidth = 800, getRenderHeight = 600\<rparr>,
            prePassRenderer =
              Some \<lparr>getIndex = (\<lambda>c. if c = PREPASS_DEPTH_TEXTURE_TYPE then 1 else - 1),
                    textures = [10, 11]\<rparr>\<rparr>)"]
    updatePostProcess_bindings[where evs = "[]" and created = 0 and effect = "[]"
      and scn = "\<lparr>getEngine = \<lparr>getRenderWidth = 800, getRenderHeight = 600\<rparr>,
                  prePassRenderer = None\<rparr>"
      and p = "IblShadowsSpatialBlurPass_new 0
        \<lparr>getEngine = \<lparr>getRenderWidth = 800, getRenderHeight = 600\<rparr>, prePassRenderer = None\<rparr>"]
  by (simp add: pass_defs updatePostProcess_def array_get_def Let_def)

end
